theory Spec2Isabelle
  imports Complex_Main
begin

section \<open>Python values, exceptions and the observable trace\<close>

text \<open>
  The program (\<^verbatim>\<open>download_youtube_playlist.py\<close>) is sequential orchestration over three
  collaborators: the operating system (\<^verbatim>\<open>os.path.exists\<close>, \<^verbatim>\<open>os.makedirs\<close>), the extraction
  engine (\<^verbatim>\<open>YoutubeDL.extract_info\<close>, \<^verbatim>\<open>YoutubeDL.download\<close>) and the table writers
  (\<^verbatim>\<open>DataFrame.to_csv\<close>, \<^verbatim>\<open>DataFrame.to_excel\<close>). The dictionaries it receives and builds hold
  dynamically typed values, modelled by \<open>pyval\<close>. A Python \<^verbatim>\<open>dict\<close> is an association list in
  insertion order (its keys are distinct); a \<^verbatim>\<open>float\<close> is idealised as the rational number
  it stands for (no rounding error, no overflow); strings are ASCII.
\<close>

datatype pyval =
    PNone
  | PBool bool
  | PInt int
  | PFloat rat
  | PStr string
  | PList "pyval list"
  | PDict "(string \<times> pyval) list"

type_synonym dict = "(string \<times> pyval) list"

text \<open>
  \<open>exn\<close> ranges over instances of Python's class \<^verbatim>\<open>Exception\<close>, which is what every
  \<^verbatim>\<open>except Exception\<close> clause of the program catches. Asynchronous signals
  (\<^verbatim>\<open>KeyboardInterrupt\<close>, \<^verbatim>\<open>SystemExit\<close>) are not instances of that class and are outside
  the model.
\<close>

datatype exn =
    OSError
  | KeyError string
  | TypeError
  | AttributeError
  | ValueError
  | UnboundLocalError string
  | DownloadError
  | ImportError

datatype level = INFO | WARNING | ERROR

text \<open>
  Every call of a collaborator is recorded, in order, in a trace. A log entry carries its
  severity and the text of its message with the interpolated parts left as written in
  the source (\<open>EvLog\<close>), or the object that was passed as the message
  (\<open>EvLogValue\<close>). The lines that the progress hook logs while \<^verbatim>\<open>YoutubeDL.download\<close>
  runs are issued by the collaborator and are not recorded.
\<close>

datatype event =
    EvMakedirs string
  | EvExtractInfo pyval bool
  | EvDownload pyval string
  | EvToCsv string "dict list"
  | EvToExcel string "dict list"
  | EvLog level string
  | EvLogValue level pyval

type_synonym trace = "event list"

text \<open>
  The collaborators' behaviour is a parameter. Each outcome may depend on everything
  that happened before (the trace so far), so that the same call may succeed once and fail
  later. \<open>ydl_extract_info env t url flat\<close> is the outcome of the block
  \<^verbatim>\<open>with yt_dlp.YoutubeDL(opts) as ydl: ydl.extract_info(url, download=False)\<close> where
  \<^verbatim>\<open>opts['extract_flat']\<close> is \<open>flat\<close>; \<open>ydl_download env t url folder\<close> is the outcome of
  \<^verbatim>\<open>with yt_dlp.YoutubeDL(opts) as ydl: ydl.download([url])\<close>: it raised, or it returned its
  return code, which is 0 unless an error was met, reported and ignored, as the option
  \<^verbatim>\<open>'ignoreerrors': True\<close> of \<open>download_video\<close> asks the engine to do.
  \<open>strftime_pads_year\<close> tells whether the platform's \<^verbatim>\<open>strftime\<close> pads \<^verbatim>\<open>%Y\<close> with zeros to four
  digits (the C library of Linux does not).
\<close>

record env =
  os_path_exists :: "trace \<Rightarrow> string \<Rightarrow> bool"
  os_makedirs :: "trace \<Rightarrow> string \<Rightarrow> exn option"
  ydl_extract_info :: "trace \<Rightarrow> pyval \<Rightarrow> bool \<Rightarrow> exn + pyval"
  ydl_download :: "trace \<Rightarrow> pyval \<Rightarrow> string \<Rightarrow> exn + int"
  df_to_csv :: "trace \<Rightarrow> string \<Rightarrow> dict list \<Rightarrow> exn option"
  df_to_excel :: "trace \<Rightarrow> string \<Rightarrow> dict list \<Rightarrow> exn option"
  datetime_now :: "trace \<Rightarrow> string"
  strftime_pads_year :: bool

definition bind_exn :: "exn + 'a \<Rightarrow> ('a \<Rightarrow> exn + 'b) \<Rightarrow> exn + 'b" where
  "bind_exn m f = (case m of Inl e \<Rightarrow> Inl e | Inr v \<Rightarrow> f v)"

subsection \<open>The operations of Python the program uses\<close>

text \<open>Truth value of an object, as \<^verbatim>\<open>if x\<close> and \<^verbatim>\<open>not x\<close> test it.\<close>

fun py_truthy :: "pyval \<Rightarrow> bool" where
  "py_truthy PNone = False"
| "py_truthy (PBool b) = b"
| "py_truthy (PInt i) = (i \<noteq> 0)"
| "py_truthy (PFloat q) = (q \<noteq> 0)"
| "py_truthy (PStr s) = (s \<noteq> [])"
| "py_truthy (PList xs) = (xs \<noteq> [])"
| "py_truthy (PDict kvs) = (kvs \<noteq> [])"

text \<open>\<^verbatim>\<open>d.get(key, default)\<close>: only a dict has the method.\<close>

fun dict_get :: "pyval \<Rightarrow> string \<Rightarrow> pyval \<Rightarrow> exn + pyval" where
  "dict_get (PDict kvs) k dflt = (case map_of kvs k of Some v \<Rightarrow> Inr v | None \<Rightarrow> Inr dflt)"
| "dict_get _ k dflt = Inl AttributeError"

text \<open>\<^verbatim>\<open>d[key]\<close> with a string key: \<^verbatim>\<open>KeyError\<close> on a dict without the key, \<^verbatim>\<open>TypeError\<close> on
  every other object of the model.\<close>

fun py_getitem :: "pyval \<Rightarrow> string \<Rightarrow> exn + pyval" where
  "py_getitem (PDict kvs) k = (case map_of kvs k of Some v \<Rightarrow> Inr v | None \<Rightarrow> Inl (KeyError k))"
| "py_getitem _ k = Inl TypeError"

text \<open>\<^verbatim>\<open>d[key] = v\<close> on a dict: the value is replaced in place, a new key goes last.\<close>

fun dict_set :: "string \<Rightarrow> pyval \<Rightarrow> dict \<Rightarrow> dict" where
  "dict_set k v [] = [(k, v)]"
| "dict_set k v (p # ps) = (if fst p = k then (k, v) # ps else p # dict_set k v ps)"

fun py_len :: "pyval \<Rightarrow> exn + nat" where
  "py_len (PStr s) = Inr (length s)"
| "py_len (PList xs) = Inr (length xs)"
| "py_len (PDict kvs) = Inr (length kvs)"
| "py_len _ = Inl TypeError"

text \<open>The elements an iteration yields: the items of a list, the characters of a string,
  the keys of a dict.\<close>

fun py_iter :: "pyval \<Rightarrow> exn + pyval list" where
  "py_iter (PStr s) = Inr (map (\<lambda>c. PStr [c]) s)"
| "py_iter (PList xs) = Inr xs"
| "py_iter (PDict kvs) = Inr (map (\<lambda>kv. PStr (fst kv)) kvs)"
| "py_iter _ = Inl TypeError"

text \<open>\<^verbatim>\<open>x / 60\<close>: true division of a number (a bool is an int).\<close>

fun py_truediv :: "pyval \<Rightarrow> int \<Rightarrow> exn + rat" where
  "py_truediv (PInt i) n = Inr (of_int i / of_int n)"
| "py_truediv (PFloat q) n = Inr (q / of_int n)"
| "py_truediv (PBool b) n = Inr ((if b then 1 else 0) / of_int n)"
| "py_truediv _ n = Inl TypeError"

text \<open>\<^verbatim>\<open>round(x, 2)\<close>: to the nearest multiple of 1/100, a tie going to the even one.\<close>

definition round_half_even :: "rat \<Rightarrow> int" where
  "round_half_even x =
     (let f = \<lfloor>x\<rfloor>; r = x - of_int f
      in if r < 1 / 2 then f else if 1 / 2 < r then f + 1 else if even f then f else f + 1)"

definition py_round2 :: "rat \<Rightarrow> rat" where
  "py_round2 x = of_int (round_half_even (x * 100)) / 100"



subsection \<open>Dates: \<^verbatim>\<open>datetime.strptime(s, '%Y%m%d').strftime('%Y-%m-%d')\<close>\<close>

text \<open>
  \<^verbatim>\<open>strptime\<close> matches a prefix of the string against the regular expression
  \<^verbatim>\<open>(\d\d\d\d)(1[0-2]|0[1-9]|[1-9])(3[0-1]|[1-2]\d|0[1-9]|[1-9]| [1-9])\<close>,
  its alternatives tried in order, and raises \<^verbatim>\<open>ValueError\<close> when nothing matches, when
  part of the string is left over, or when the three numbers are not a date.
\<close>

definition is_digit :: "char \<Rightarrow> bool" where
  "is_digit c = (c \<in> set ''0123456789'')"

definition is_digit19 :: "char \<Rightarrow> bool" where
  "is_digit19 c = (c \<in> set ''123456789'')"

definition digit_val :: "char \<Rightarrow> nat" where
  "digit_val c = length (takeWhile (\<lambda>d. d \<noteq> c) ''0123456789'')"

definition digit_char :: "nat \<Rightarrow> char" where
  "digit_char n = ''0123456789'' ! n"

text \<open>The month group: every way it matches at the head of the string, in the order of
  its alternatives, each with the rest of the string.\<close>

fun match_m :: "string \<Rightarrow> (nat \<times> string) list" where
  "match_m (a # b # r) =
     (if a = CHR ''1'' \<and> b \<in> set ''012'' then [(10 + digit_val b, r)] else []) @
     (if a = CHR ''0'' \<and> is_digit19 b then [(digit_val b, r)] else []) @
     (if is_digit19 a then [(digit_val a, b # r)] else [])"
| "match_m [a] = (if is_digit19 a then [(digit_val a, [])] else [])"
| "match_m [] = []"

text \<open>The day group is the last one: its first alternative that matches is taken.\<close>

fun match_d :: "string \<Rightarrow> (nat \<times> string) option" where
  "match_d (a # b # r) =
     (if a = CHR ''3'' \<and> b \<in> set ''01'' then Some (30 + digit_val b, r)
      else if a \<in> set ''12'' \<and> is_digit b then Some (10 * digit_val a + digit_val b, r)
      else if a = CHR ''0'' \<and> is_digit19 b then Some (digit_val b, r)
      else if is_digit19 a then Some (digit_val a, b # r)
      else if a = CHR '' '' \<and> is_digit19 b then Some (digit_val b, r)
      else None)"
| "match_d [a] = (if is_digit19 a then Some (digit_val a, []) else None)"
| "match_d [] = None"

text \<open>The first month alternative after which the day group matches.\<close>

fun match_md :: "(nat \<times> string) list \<Rightarrow> (nat \<times> nat \<times> string) option" where
  "match_md [] = None"
| "match_md ((m, r) # alts) =
     (case match_d r of Some (d, r') \<Rightarrow> Some (m, d, r') | None \<Rightarrow> match_md alts)"

definition leap_year :: "nat \<Rightarrow> bool" where
  "leap_year y = (y mod 4 = 0 \<and> (y mod 100 \<noteq> 0 \<or> y mod 400 = 0))"

definition days_in_month :: "nat \<Rightarrow> nat \<Rightarrow> nat" where
  "days_in_month y m =
     (if m = 2 then (if leap_year y then 29 else 28)
      else if m \<in> {4, 6, 9, 11} then 30 else 31)"

definition valid_date :: "nat \<Rightarrow> nat \<Rightarrow> nat \<Rightarrow> bool" where
  "valid_date y m d = (1 \<le> y \<and> y \<le> 9999 \<and> 1 \<le> m \<and> m \<le> 12 \<and> 1 \<le> d \<and> d \<le> days_in_month y m)"

fun strptime_Ymd :: "pyval \<Rightarrow> exn + (nat \<times> nat \<times> nat)" where
  "strptime_Ymd (PStr s) =
     (case s of
        y1 # y2 # y3 # y4 # rest \<Rightarrow>
          if is_digit y1 \<and> is_digit y2 \<and> is_digit y3 \<and> is_digit y4 then
            (case match_md (match_m rest) of
               None \<Rightarrow> Inl ValueError
             | Some (m, d, left) \<Rightarrow>
                 let y = 1000 * digit_val y1 + 100 * digit_val y2 + 10 * digit_val y3 + digit_val y4
                 in if left \<noteq> [] then Inl ValueError
                    else if valid_date y m d then Inr (y, m, d)
                    else Inl ValueError)
          else Inl ValueError
      | _ \<Rightarrow> Inl ValueError)"
| "strptime_Ymd _ = Inl TypeError"

definition pad2 :: "nat \<Rightarrow> string" where
  "pad2 n = [digit_char (n div 10 mod 10), digit_char (n mod 10)]"

definition pad4 :: "nat \<Rightarrow> string" where
  "pad4 n = [digit_char (n div 1000 mod 10), digit_char (n div 100 mod 10),
             digit_char (n div 10 mod 10), digit_char (n mod 10)]"

text \<open>\<^verbatim>\<open>strftime('%Y-%m-%d')\<close> of a date (year 1 to 9999): month and day have two digits;
  the year has four, unless the platform leaves out its leading zeros.\<close>

definition strftime_Ymd :: "bool \<Rightarrow> nat \<times> nat \<times> nat \<Rightarrow> string" where
  "strftime_Ymd pads ymd =
     (case ymd of (y, m, d) \<Rightarrow>
        (if pads then pad4 y else dropWhile (\<lambda>c. c = CHR ''0'') (pad4 y))
        @ ''-'' @ pad2 m @ ''-'' @ pad2 d)"

section \<open>The program\<close>

subsection \<open>\<^verbatim>\<open>setup_download_folder\<close>\<close>

text \<open>The handler logs and re-raises what \<^verbatim>\<open>os.makedirs\<close> raised.\<close>

definition setup_download_folder :: "env \<Rightarrow> string \<Rightarrow> trace \<Rightarrow> (exn + unit) \<times> trace" where
  "setup_download_folder env folder t =
     (if \<not> os_path_exists env t folder then
        (case os_makedirs env t folder of
           None \<Rightarrow>
             (Inr (), t @ [EvMakedirs folder, EvLog INFO ''Folder {folder} berhasil dibuat''])
         | Some e \<Rightarrow>
             (Inl e, t @ [EvMakedirs folder, EvLog ERROR ''Gagal membuat folder {folder}: {e}'']))
      else (Inr (), t))"

subsection \<open>\<^verbatim>\<open>get_video_info\<close>\<close>

text \<open>
  \<^verbatim>\<open>round(info_dict.get('duration', 0) / 60, 2) if info_dict.get('duration') else 0\<close>
\<close>

definition durasi_menit_of :: "pyval \<Rightarrow> exn + pyval" where
  "durasi_menit_of info_dict =
     bind_exn (dict_get info_dict ''duration'' PNone) (\<lambda>c.
       if py_truthy c then
         bind_exn (dict_get info_dict ''duration'' (PInt 0)) (\<lambda>d.
         bind_exn (py_truediv d 60) (\<lambda>q. Inr (PFloat (py_round2 q))))
       else Inr (PInt 0))"

text \<open>
  \<^verbatim>\<open>datetime.strptime(info_dict.get('upload_date', '19700101'), '%Y%m%d').strftime('%Y-%m-%d')
    if info_dict.get('upload_date') else 'Tidak tersedia'\<close>
\<close>

definition tanggal_publikasi_of :: "bool \<Rightarrow> pyval \<Rightarrow> exn + pyval" where
  "tanggal_publikasi_of pads info_dict =
     bind_exn (dict_get info_dict ''upload_date'' PNone) (\<lambda>c.
       if py_truthy c then
         bind_exn (dict_get info_dict ''upload_date'' (PStr ''19700101'')) (\<lambda>s.
         bind_exn (strptime_Ymd s) (\<lambda>date. Inr (PStr (strftime_Ymd pads date))))
       else Inr (PStr ''Tidak tersedia''))"

text \<open>The dict that the \<^verbatim>\<open>return\<close> inside the \<^verbatim>\<open>try\<close> builds, its values evaluated in the
  order they are written.\<close>

definition video_info_of :: "bool \<Rightarrow> pyval \<Rightarrow> pyval \<Rightarrow> exn + dict" where
  "video_info_of pads url info_dict =
     bind_exn (dict_get info_dict ''title'' (PStr ''Tidak tersedia'')) (\<lambda>judul.
     bind_exn (dict_get info_dict ''duration'' (PInt 0)) (\<lambda>durasi_detik.
     bind_exn (durasi_menit_of info_dict) (\<lambda>durasi_menit.
     bind_exn (dict_get info_dict ''uploader'' (PStr ''Tidak tersedia'')) (\<lambda>channel.
     bind_exn (dict_get info_dict ''view_count'' (PInt 0)) (\<lambda>jumlah_views.
     bind_exn (tanggal_publikasi_of pads info_dict) (\<lambda>tanggal_publikasi.
     bind_exn (dict_get info_dict ''description'' (PStr ''Tidak tersedia'')) (\<lambda>deskripsi.
       Inr [(''judul'', judul),
            (''url'', url),
            (''durasi_detik'', durasi_detik),
            (''durasi_menit'', durasi_menit),
            (''channel'', channel),
            (''jumlah_views'', jumlah_views),
            (''tanggal_publikasi'', tanggal_publikasi),
            (''deskripsi'', deskripsi)])))))))"

text \<open>The dict that the handler returns.\<close>

definition default_video_info :: "pyval \<Rightarrow> dict" where
  "default_video_info url =
     [(''judul'', PStr ''Tidak tersedia''),
      (''url'', url),
      (''durasi_detik'', PInt 0),
      (''durasi_menit'', PInt 0),
      (''channel'', PStr ''Tidak tersedia''),
      (''jumlah_views'', PInt 0),
      (''tanggal_publikasi'', PStr ''Tidak tersedia''),
      (''deskripsi'', PStr ''Tidak tersedia'')]"

text \<open>The body of the \<^verbatim>\<open>try\<close>.\<close>

definition get_video_info_try :: "env \<Rightarrow> pyval \<Rightarrow> bool \<Rightarrow> trace \<Rightarrow> (exn + dict) \<times> trace" where
  "get_video_info_try env url is_playlist_item t =
     (let t1 = t @ [EvExtractInfo url is_playlist_item]
      in case ydl_extract_info env t url is_playlist_item of
           Inl e \<Rightarrow> (Inl e, t1)
         | Inr info_dict \<Rightarrow> (video_info_of (strftime_pads_year env) url info_dict, t1))"

definition get_video_info :: "env \<Rightarrow> pyval \<Rightarrow> bool \<Rightarrow> trace \<Rightarrow> (exn + dict) \<times> trace" where
  "get_video_info env url is_playlist_item t =
     (case get_video_info_try env url is_playlist_item t of
        (Inr video_info, t1) \<Rightarrow> (Inr video_info, t1)
      | (Inl e, t1) \<Rightarrow>
          (Inr (default_video_info url),
           t1 @ [EvLog ERROR ''Gagal mengambil info untuk {url}: {str(e)}'']))"

subsection \<open>\<^verbatim>\<open>download_video\<close>\<close>

text \<open>The value that \<^verbatim>\<open>ydl.download([url])\<close> returns is not looked at: \<^verbatim>\<open>return True\<close> follows
  whenever the call returns.\<close>

definition download_video :: "env \<Rightarrow> pyval \<Rightarrow> string \<Rightarrow> trace \<Rightarrow> (exn + bool) \<times> trace" where
  "download_video env url download_folder t =
     (case ydl_download env t url download_folder of
        Inr retcode \<Rightarrow> (Inr True, t @ [EvDownload url download_folder])
      | Inl e \<Rightarrow>
          (Inr False,
           t @ [EvDownload url download_folder,
                EvLog ERROR ''Error saat mendownload {url}: {str(e)}'']))"

subsection \<open>Writing the two tables\<close>

text \<open>
  Both workflows build a \<^verbatim>\<open>DataFrame\<close> from the rows, take one timestamp and write
  \<^verbatim>\<open>{prefix}{timestamp}.csv\<close>, then \<^verbatim>\<open>{prefix}{timestamp}.xlsx\<close>. A failing writer raises
  into the workflow's \<^verbatim>\<open>try\<close>.
\<close>

definition write_tables ::
    "env \<Rightarrow> string \<Rightarrow> dict list \<Rightarrow> trace \<Rightarrow> (exn + string \<times> string) \<times> trace" where
  "write_tables env prefix rows t =
     (let timestamp = datetime_now env t;
          csv_filename = prefix @ timestamp @ ''.csv'';
          excel_filename = prefix @ timestamp @ ''.xlsx'';
          t1 = t @ [EvToCsv csv_filename rows]
      in case df_to_csv env t csv_filename rows of
           Some e \<Rightarrow> (Inl e, t1)
         | None \<Rightarrow>
             (let t2 = t1 @ [EvToExcel excel_filename rows]
              in case df_to_excel env t1 excel_filename rows of
                   Some e \<Rightarrow> (Inl e, t2)
                 | None \<Rightarrow> (Inr (csv_filename, excel_filename), t2)))"

subsection \<open>\<^verbatim>\<open>download_single_video\<close>\<close>

definition download_single_video_try ::
    "env \<Rightarrow> string \<Rightarrow> string \<Rightarrow> trace \<Rightarrow> (exn + dict option) \<times> trace" where
  "download_single_video_try env url download_folder t =
     (case setup_download_folder env download_folder t of
        (Inl e, t1) \<Rightarrow> (Inl e, t1)
      | (Inr _, t1) \<Rightarrow>
          (case get_video_info env (PStr url) False (t1 @ [EvLog INFO ''Memproses video: {url}'']) of
             (Inl e, t2) \<Rightarrow> (Inl e, t2)
           | (Inr video_info, t2) \<Rightarrow>
               (case download_video env (PStr url) download_folder t2 of
                  (Inl e, t3) \<Rightarrow> (Inl e, t3)
                | (Inr ok, t3) \<Rightarrow>
                    if ok then
                      (case write_tables env ''youtube_video_'' [video_info]
                              (t3 @ [EvLog INFO ''Video berhasil didownload'']) of
                         (Inl e, t4) \<Rightarrow> (Inl e, t4)
                       | (Inr _, t4) \<Rightarrow>
                           (Inr (Some video_info),
                            t4 @ [EvLog INFO ''Informasi video telah disimpan ke:'',
                                  EvLog INFO ''- CSV: {csv_filename}'',
                                  EvLog INFO ''- Excel: {excel_filename}'']))
                    else (Inr None, t3 @ [EvLog ERROR ''Gagal mendownload video'']))))"

definition download_single_video ::
    "env \<Rightarrow> string \<Rightarrow> string \<Rightarrow> trace \<Rightarrow> (exn + dict option) \<times> trace" where
  "download_single_video env url download_folder t =
     (case download_single_video_try env url download_folder t of
        (Inr r, t1) \<Rightarrow> (Inr r, t1)
      | (Inl e, t1) \<Rightarrow> (Inr None, t1 @ [EvLog ERROR ''Error saat memproses video: {str(e)}'']))"

subsection \<open>\<^verbatim>\<open>extract_playlist_info\<close>\<close>

text \<open>
  The variables of the function that the loop reads and writes. \<open>video_url\<close> is \<open>None\<close>
  as long as no iteration has assigned it; it keeps its value from one iteration to the
  next.
\<close>

record loop_state =
  video_data :: "dict list"
  failed_downloads :: "pyval list"
  video_url :: "pyval option"

text \<open>
  The body of the \<^verbatim>\<open>try\<close> inside the loop, for the entry \<open>video\<close> at position \<open>index\<close>.
  When it raises, the variables are as they were at the statement that raised.
\<close>

definition process_entry_try ::
    "env \<Rightarrow> pyval \<Rightarrow> string \<Rightarrow> nat \<Rightarrow> pyval \<Rightarrow> loop_state \<Rightarrow> trace
       \<Rightarrow> (exn \<times> loop_state + loop_state) \<times> trace" where
  "process_entry_try env playlist_info download_folder index video st t =
     (case py_getitem video ''url'' of
        Inl e \<Rightarrow> (Inl (e, st), t)
      | Inr u \<Rightarrow>
          (let st1 = st\<lparr>video_url := Some u\<rparr>;
               t1 = t @ [EvLog INFO ''Memproses video {index}/{total_videos}'']
           in case get_video_info env u True t1 of
                (Inl e, t2) \<Rightarrow> (Inl (e, st1), t2)
              | (Inr video_info, t2) \<Rightarrow>
                  (case py_getitem playlist_info ''title'' of
                     Inl e \<Rightarrow> (Inl (e, st1), t2)
                   | Inr title \<Rightarrow>
                       (let video_info1 = dict_set ''playlist'' title video_info;
                            video_info2 =
                              dict_set ''urutan_playlist'' (PInt (int index)) video_info1;
                            st2 = st1\<lparr>video_data := video_data st1 @ [video_info2]\<rparr>
                        in case download_video env u download_folder t2 of
                             (Inl e, t3) \<Rightarrow> (Inl (e, st2), t3)
                           | (Inr ok, t3) \<Rightarrow>
                               if \<not> ok then
                                 (Inr (st2\<lparr>failed_downloads := failed_downloads st2 @ [u]\<rparr>), t3)
                               else (Inr st2, t3)))))"

text \<open>
  The loop \<^verbatim>\<open>for index, video in enumerate(playlist_info['entries'], 1)\<close>, from position
  \<open>index\<close> on. The handler logs, appends the variable \<open>video_url\<close> to \<open>failed_downloads\<close>
  and continues; reading the variable while it is unassigned raises \<^verbatim>\<open>UnboundLocalError\<close>
  out of the handler, hence out of the loop.
\<close>

fun process_entries ::
    "env \<Rightarrow> pyval \<Rightarrow> string \<Rightarrow> nat \<Rightarrow> pyval list \<Rightarrow> loop_state \<Rightarrow> trace
       \<Rightarrow> (exn + loop_state) \<times> trace" where
  "process_entries env playlist_info download_folder index [] st t = (Inr st, t)"
| "process_entries env playlist_info download_folder index (video # rest) st t =
     (case process_entry_try env playlist_info download_folder index video st t of
        (Inr st1, t1) \<Rightarrow>
          process_entries env playlist_info download_folder (Suc index) rest st1 t1
      | (Inl (e, st1), t1) \<Rightarrow>
          (let t2 = t1 @ [EvLog ERROR ''Error pada video {index}: {str(e)}'']
           in case video_url st1 of
                None \<Rightarrow> (Inl (UnboundLocalError ''video_url''), t2)
              | Some u \<Rightarrow>
                  process_entries env playlist_info download_folder (Suc index) rest
                    (st1\<lparr>failed_downloads := failed_downloads st1 @ [u]\<rparr>) t2))"

text \<open>The log lines of the summary, written after the two tables.\<close>

definition summary_log :: "pyval list \<Rightarrow> event list" where
  "summary_log failed =
     [EvLog INFO ''Ringkasan:'',
      EvLog INFO ''Total video dalam playlist: {total_videos}'',
      EvLog INFO ''Video berhasil didownload: {total_videos - len(failed_downloads)}'',
      EvLog INFO ''Video gagal didownload: {len(failed_downloads)}'']
     @ (if failed \<noteq> [] then
          EvLog WARNING ''Daftar video yang gagal didownload:''
            # map (\<lambda>url. EvLogValue WARNING url) failed
        else [])
     @ [EvLog INFO ''Data telah disimpan ke:'',
        EvLog INFO ''- CSV: {csv_filename}'',
        EvLog INFO ''- Excel: {excel_filename}'']"

definition extract_playlist_info_try ::
    "env \<Rightarrow> string \<Rightarrow> string \<Rightarrow> trace \<Rightarrow> (exn + dict list option) \<times> trace" where
  "extract_playlist_info_try env playlist_url download_folder t =
     (case setup_download_folder env download_folder t of
        (Inl e, t1) \<Rightarrow> (Inl e, t1)
      | (Inr _, t1) \<Rightarrow>
          (let t2 = t1 @ [EvExtractInfo (PStr playlist_url) True]
           in case ydl_extract_info env t1 (PStr playlist_url) True of
                Inl e \<Rightarrow> (Inl e, t2)
              | Inr playlist_info \<Rightarrow>
                  if \<not> py_truthy playlist_info then
                    (Inr None, t2 @ [EvLog ERROR ''Gagal mendapatkan informasi playlist''])
                  else
                    (case py_getitem playlist_info ''title'' of
                       Inl e \<Rightarrow> (Inl e, t2)
                     | Inr title \<Rightarrow>
                         (let t3 = t2 @ [EvLog INFO ''Mengekstrak playlist: {title}'']
                          in case bind_exn (py_getitem playlist_info ''entries'') py_len of
                               Inl e \<Rightarrow> (Inl e, t3)
                             | Inr total_videos \<Rightarrow>
                                 (case bind_exn (py_getitem playlist_info ''entries'') py_iter of
                                    Inl e \<Rightarrow> (Inl e, t3)
                                  | Inr videos \<Rightarrow>
                                      (case process_entries env playlist_info download_folder 1
                                              videos
                                              \<lparr>video_data = [], failed_downloads = [],
                                               video_url = None\<rparr> t3 of
                                         (Inl e, t4) \<Rightarrow> (Inl e, t4)
                                       | (Inr st, t4) \<Rightarrow>
                                           if video_data st \<noteq> [] then
                                             (case write_tables env ''youtube_playlist_''
                                                     (video_data st) t4 of
                                                (Inl e, t5) \<Rightarrow> (Inl e, t5)
                                              | (Inr _, t5) \<Rightarrow>
                                                  (Inr (Some (video_data st)),
                                                   t5 @ summary_log (failed_downloads st)))
                                           else (Inr (Some (video_data st)), t4)))))))"

definition extract_playlist_info ::
    "env \<Rightarrow> string \<Rightarrow> string \<Rightarrow> trace \<Rightarrow> (exn + dict list option) \<times> trace" where
  "extract_playlist_info env playlist_url download_folder t =
     (case extract_playlist_info_try env playlist_url download_folder t of
        (Inr r, t1) \<Rightarrow> (Inr r, t1)
      | (Inl e, t1) \<Rightarrow> (Inr None, t1 @ [EvLog ERROR ''Error utama: {str(e)}'']))"

subsection \<open>What a trace shows\<close>

fun is_network_call :: "event \<Rightarrow> bool" where
  "is_network_call (EvExtractInfo url flat) = True"
| "is_network_call (EvDownload url folder) = True"
| "is_network_call _ = False"

fun is_report_write :: "event \<Rightarrow> bool" where
  "is_report_write (EvToCsv name rows) = True"
| "is_report_write (EvToExcel name rows) = True"
| "is_report_write _ = False"

fun is_error_log :: "event \<Rightarrow> bool" where
  "is_error_log (EvLog ERROR msg) = True"
| "is_error_log _ = False"

text \<open>What a row of the playlist workflow says about the entry \<open>video\<close> at position \<open>i\<close>:
  it carries the position, the playlist's title and the URL the entry exposes.\<close>

definition row_of_entry :: "pyval \<Rightarrow> nat \<Rightarrow> pyval \<Rightarrow> dict \<Rightarrow> bool" where
  "row_of_entry title i video r =
     (map_of r ''urutan_playlist'' = Some (PInt (int i))
      \<and> map_of r ''playlist'' = Some title
      \<and> (case py_getitem video ''url'' of Inr u \<Rightarrow> map_of r ''url'' = Some u | Inl e \<Rightarrow> False))"

text \<open>The number of rows a workflow returned, if it returned rows.\<close>

definition returned_row_count :: "exn + dict list option \<Rightarrow> nat option" where
  "returned_row_count r = (case r of Inr (Some rows) \<Rightarrow> Some (length rows) | _ \<Rightarrow> None)"

section \<open>Concrete collaborators\<close>

text \<open>
  Collaborators for the examples: the folder does not exist yet, \<open>mk\<close> is what
  \<^verbatim>\<open>os.makedirs\<close> does, \<open>ex\<close> what \<^verbatim>\<open>extract_info\<close> returns or raises for a URL, \<open>dl\<close> what
  \<^verbatim>\<open>download\<close> does for a URL; both writers succeed. Nothing depends on the history.
\<close>

definition demo_env ::
    "exn option \<Rightarrow> (pyval \<Rightarrow> exn + pyval) \<Rightarrow> (pyval \<Rightarrow> exn + int) \<Rightarrow> env" where
  "demo_env mk ex dl =
     \<lparr>os_path_exists = (\<lambda>t folder. False),
      os_makedirs = (\<lambda>t folder. mk),
      ydl_extract_info = (\<lambda>t url flat. ex url),
      ydl_download = (\<lambda>t url folder. dl url),
      df_to_csv = (\<lambda>t name rows. None),
      df_to_excel = (\<lambda>t name rows. None),
      datetime_now = (\<lambda>t. ''20240115_120000''),
      strftime_pads_year = False\<rparr>"

definition demo_playlist :: "pyval list \<Rightarrow> pyval" where
  "demo_playlist entries = PDict [(''title'', PStr ''P''), (''entries'', PList entries)]"

definition demo_entry :: "string \<Rightarrow> pyval" where
  "demo_entry u = PDict [(''url'', PStr u)]"

text \<open>An engine that knows one playlist, at the URL \<open>list\<close>, and no metadata of any video.\<close>

definition demo_extract :: "pyval list \<Rightarrow> pyval \<Rightarrow> exn + pyval" where
  "demo_extract entries url =
     (if url = PStr ''list'' then Inr (demo_playlist entries) else Inl DownloadError)"

text \<open>A folder that cannot be created.\<close>

definition env_denied :: env where
  "env_denied = demo_env (Some OSError) (demo_extract []) (\<lambda>url. Inr 0)"

text \<open>Every download raises; the playlist has the members \<open>a\<close> and \<open>b\<close>.\<close>

definition env_no_download :: env where
  "env_no_download =
     demo_env None (demo_extract [demo_entry ''a'', demo_entry ''b'']) (\<lambda>url. Inl DownloadError)"

text \<open>Every download meets an error that the engine reports and ignores: the call returns
  the code 1.\<close>

definition env_swallowed :: env where
  "env_swallowed = demo_env None (demo_extract []) (\<lambda>url. Inr 1)"

text \<open>The engine works and the CSV writer raises.\<close>

definition env_csv_fails :: env where
  "env_csv_fails =
     (demo_env None (demo_extract [demo_entry ''a'']) (\<lambda>url. Inr 0))
       \<lparr>df_to_csv := (\<lambda>t name rows. Some OSError)\<rparr>"

text \<open>The row the playlist workflow builds for the member \<open>u\<close> at position \<open>i\<close> of the
  playlist \<open>P\<close> when the engine knows no metadata.\<close>

definition demo_row :: "string \<Rightarrow> int \<Rightarrow> dict" where
  "demo_row u i =
     [(''judul'', PStr ''Tidak tersedia''),
      (''url'', PStr u),
      (''durasi_detik'', PInt 0),
      (''durasi_menit'', PInt 0),
      (''channel'', PStr ''Tidak tersedia''),
      (''jumlah_views'', PInt 0),
      (''tanggal_publikasi'', PStr ''Tidak tersedia''),
      (''deskripsi'', PStr ''Tidak tersedia''),
      (''playlist'', PStr ''P''),
      (''urutan_playlist'', PInt i)]"

text \<open>A playlist whose second entry exposes no URL; every download succeeds.\<close>

definition env_gap :: env where
  "env_gap =
     demo_env None
       (demo_extract [demo_entry ''a'', PDict [(''id'', PStr ''x'')], demo_entry ''c''])
       (\<lambda>url. Inr 0)"

text \<open>A playlist whose first entry exposes no URL; every download succeeds.\<close>

definition env_first_gap :: env where
  "env_first_gap =
     demo_env None (demo_extract [PDict [(''id'', PStr ''x'')], demo_entry ''b'']) (\<lambda>url. Inr 0)"



section \<open>Basic facts\<close>

lemma bind_exn_Inr_iff: "bind_exn m f = Inr r \<longleftrightarrow> (\<exists>v. m = Inr v \<and> f v = Inr r)"
  by (cases m) (simp_all add: bind_exn_def)

lemma bind_exn_Inl_iff:
  "bind_exn m f = Inl e \<longleftrightarrow> m = Inl e \<or> (\<exists>v. m = Inr v \<and> f v = Inl e)"
  by (cases m) (simp_all add: bind_exn_def)

lemma video_info_of_fields:
  assumes "video_info_of pads url info_dict = Inr r"
  shows "\<exists>judul detik menit channel views tanggal deskripsi.
           r = [(''judul'', judul), (''url'', url), (''durasi_detik'', detik),
                (''durasi_menit'', menit), (''channel'', channel), (''jumlah_views'', views),
                (''tanggal_publikasi'', tanggal), (''deskripsi'', deskripsi)]
           \<and> dict_get info_dict ''duration'' (PInt 0) = Inr detik
           \<and> durasi_menit_of info_dict = Inr menit
           \<and> tanggal_publikasi_of pads info_dict = Inr tanggal"
  using assms unfolding video_info_of_def bind_exn_Inr_iff by auto

text \<open>The two ways \<open>get_video_info\<close> ends: through its handler, or with the dict built from
  the collaborator's answer.\<close>

lemma get_video_info_cases:
  "(\<exists>e. get_video_info_try env url flat t = (Inl e, t @ [EvExtractInfo url flat])
        \<and> get_video_info env url flat t =
            (Inr (default_video_info url),
             t @ [EvExtractInfo url flat,
                  EvLog ERROR ''Gagal mengambil info untuk {url}: {str(e)}'']))
   \<or> (\<exists>info_dict r. ydl_extract_info env t url flat = Inr info_dict
        \<and> video_info_of (strftime_pads_year env) url info_dict = Inr r
        \<and> get_video_info env url flat t = (Inr r, t @ [EvExtractInfo url flat]))"
  unfolding get_video_info_def get_video_info_try_def Let_def
  by (auto split: sum.splits)

lemma get_video_info_result:
  "\<exists>r t1. get_video_info env url flat t = (Inr r, t1) \<and> map_of r ''url'' = Some url"
  using get_video_info_cases [of env url flat t]
  by (auto simp: default_video_info_def dest!: video_info_of_fields)

lemma setup_download_folder_cases:
  "setup_download_folder env folder t = (x, t1) \<Longrightarrow>
     (x = Inr () \<and> filter is_network_call t1 = filter is_network_call t
        \<and> filter is_report_write t1 = filter is_report_write t)
   \<or> (\<exists>e. x = Inl e \<and> \<not> os_path_exists env t folder \<and> os_makedirs env t folder = Some e
        \<and> t1 = t @ [EvMakedirs folder, EvLog ERROR ''Gagal membuat folder {folder}: {e}''])"
  unfolding setup_download_folder_def
  by (auto split: if_splits option.splits)

lemma setup_download_folder_fails:
  "\<not> os_path_exists env t folder \<Longrightarrow> os_makedirs env t folder = Some e \<Longrightarrow>
   setup_download_folder env folder t =
     (Inl e, t @ [EvMakedirs folder, EvLog ERROR ''Gagal membuat folder {folder}: {e}''])"
  by (simp add: setup_download_folder_def)

lemma download_video_cases:
  "((\<exists>retcode. ydl_download env t url folder = Inr retcode)
      \<and> download_video env url folder t = (Inr True, t @ [EvDownload url folder]))
   \<or> (\<exists>e. ydl_download env t url folder = Inl e
      \<and> download_video env url folder t =
          (Inr False,
           t @ [EvDownload url folder, EvLog ERROR ''Error saat mendownload {url}: {str(e)}'']))"
  by (cases "ydl_download env t url folder") (simp_all add: download_video_def)

lemma single_try_raises:
  "download_single_video_try env url folder t = (Inl e, t1) \<Longrightarrow>
   download_single_video env url folder t =
     (Inr None, t1 @ [EvLog ERROR ''Error saat memproses video: {str(e)}''])"
  by (simp add: download_single_video_def)

lemma single_never_raises: "\<exists>r. fst (download_single_video env url folder t) = Inr r"
  unfolding download_single_video_def by (auto split: prod.splits sum.splits)

lemma playlist_try_raises:
  "extract_playlist_info_try env url folder t = (Inl e, t1) \<Longrightarrow>
   extract_playlist_info env url folder t =
     (Inr None, t1 @ [EvLog ERROR ''Error utama: {str(e)}''])"
  by (simp add: extract_playlist_info_def)

lemma playlist_never_raises: "\<exists>r. fst (extract_playlist_info env url folder t) = Inr r"
  unfolding extract_playlist_info_def by (auto split: prod.splits sum.splits)

lemma single_folder_failure:
  assumes "\<not> os_path_exists env t folder" and "os_makedirs env t folder = Some e"
  shows "download_single_video env url folder t =
           (Inr None,
            t @ [EvMakedirs folder, EvLog ERROR ''Gagal membuat folder {folder}: {e}'',
                 EvLog ERROR ''Error saat memproses video: {str(e)}''])"
  using setup_download_folder_fails [OF assms]
  by (simp add: download_single_video_def download_single_video_try_def)

lemma playlist_folder_failure:
  assumes "\<not> os_path_exists env t folder" and "os_makedirs env t folder = Some e"
  shows "extract_playlist_info env url folder t =
           (Inr None,
            t @ [EvMakedirs folder, EvLog ERROR ''Gagal membuat folder {folder}: {e}'',
                 EvLog ERROR ''Error utama: {str(e)}''])"
  using setup_download_folder_fails [OF assms]
  by (simp add: extract_playlist_info_def extract_playlist_info_try_def)

lemma get_video_info_trace:
  "get_video_info env url flat t = (x, t1) \<Longrightarrow>
     filter is_report_write t1 = filter is_report_write t \<and> EvExtractInfo url flat \<in> set t1"
  using get_video_info_cases [of env url flat t] by auto

section \<open>The loop over the playlist\<close>

lemma map_of_dict_set:
  "map_of (dict_set k v d) k' = (if k' = k then Some v else map_of d k')"
  by (induction d) auto

lemma nth_Cons_shift: "Suc index \<le> i \<Longrightarrow> (x # xs) ! (i - index) = xs ! (i - Suc index)"
proof -
  assume "Suc index \<le> i"
  then have "i - index = Suc (i - Suc index)" by simp
  then show ?thesis by simp
qed

lemma process_entry_try_no_url:
  "py_getitem video ''url'' = Inl e \<Longrightarrow>
   process_entry_try env playlist_info folder index video st t = (Inl (e, st), t)"
  by (simp add: process_entry_try_def)

lemma process_entry_try_url:
  assumes "py_getitem video ''url'' = Inr u"
      and "py_getitem playlist_info ''title'' = Inr title"
  shows "\<exists>r t2. get_video_info env u True
                  (t @ [EvLog INFO ''Memproses video {index}/{total_videos}'']) = (Inr r, t2)
           \<and> map_of r ''url'' = Some u
           \<and> process_entry_try env playlist_info folder index video st t =
               (Inr (st\<lparr>video_url := Some u,
                        video_data := video_data st @
                          [dict_set ''urutan_playlist'' (PInt (int index))
                             (dict_set ''playlist'' title r)],
                        failed_downloads := failed_downloads st @
                          (if fst (download_video env u folder t2) = Inr True then [] else [u])\<rparr>),
                snd (download_video env u folder t2))"
proof -
  from get_video_info_result
  obtain r t2 where g: "get_video_info env u True
      (t @ [EvLog INFO ''Memproses video {index}/{total_videos}'']) = (Inr r, t2)"
    and u: "map_of r ''url'' = Some u"
    by blast
  from download_video_cases [of env t2 u folder]
  have "process_entry_try env playlist_info folder index video st t =
               (Inr (st\<lparr>video_url := Some u,
                        video_data := video_data st @
                          [dict_set ''urutan_playlist'' (PInt (int index))
                             (dict_set ''playlist'' title r)],
                        failed_downloads := failed_downloads st @
                          (if fst (download_video env u folder t2) = Inr True then [] else [u])\<rparr>),
                snd (download_video env u folder t2))"
    by (auto simp: process_entry_try_def assms g)
  with g u show ?thesis by blast
qed

lemma process_entries_rows:
  assumes "py_getitem playlist_info ''title'' = Inr title"
      and "process_entries env playlist_info folder index videos st t = (Inr st', t')"
  shows "\<exists>is new. video_data st' = video_data st @ new
           \<and> sorted_wrt (<) is
           \<and> set is \<subseteq> {index ..< index + length videos}
           \<and> list_all2 (\<lambda>i r. row_of_entry title i (videos ! (i - index)) r) is new"
  using assms(2)
proof (induction videos arbitrary: index st t)
  case Nil
  then show ?case by simp
next
  case (Cons video rest)
  show ?case
  proof (cases "py_getitem video ''url''")
    case (Inl e)
    from Cons.prems obtain u where vu: "video_url st = Some u"
      and rec: "process_entries env playlist_info folder (Suc index) rest
                  (st\<lparr>failed_downloads := failed_downloads st @ [u]\<rparr>)
                  (t @ [EvLog ERROR ''Error pada video {index}: {str(e)}'']) = (Inr st', t')"
      by (auto simp: process_entry_try_no_url [OF Inl] Let_def split: option.splits)
    from Cons.IH [OF rec] obtain "is" new where
      a: "video_data st' = video_data st @ new" and b: "sorted_wrt (<) is"
      and c: "set is \<subseteq> {Suc index ..< Suc index + length rest}"
      and d: "list_all2 (\<lambda>i r. row_of_entry title i (rest ! (i - Suc index)) r) is new"
      by auto
    have "list_all2 (\<lambda>i r. row_of_entry title i ((video # rest) ! (i - index)) r) is new"
      using d c by (auto simp: list_all2_conv_all_nth nth_Cons_shift subset_iff)
    with a b c show ?thesis
      by (intro exI [of _ "is"] exI [of _ new]) auto
  next
    case (Inr u)
    from process_entry_try_url [OF Inr assms(1), where env = env and t = t and index = index
          and folder = folder and st = st]
    obtain r st1 t1 where u: "map_of r ''url'' = Some u"
      and st1: "video_data st1 = video_data st @
                  [dict_set ''urutan_playlist'' (PInt (int index)) (dict_set ''playlist'' title r)]"
      and step: "process_entry_try env playlist_info folder index video st t = (Inr st1, t1)"
      by fastforce
    from Cons.prems step
    have rec: "process_entries env playlist_info folder (Suc index) rest st1 t1 = (Inr st', t')"
      by simp
    from Cons.IH [OF rec] obtain "is" new where
      a: "video_data st' = video_data st1 @ new" and b: "sorted_wrt (<) is"
      and c: "set is \<subseteq> {Suc index ..< Suc index + length rest}"
      and d: "list_all2 (\<lambda>i r. row_of_entry title i (rest ! (i - Suc index)) r) is new"
      by auto
    let ?row = "dict_set ''urutan_playlist'' (PInt (int index)) (dict_set ''playlist'' title r)"
    have d': "list_all2 (\<lambda>i r. row_of_entry title i ((video # rest) ! (i - index)) r) is new"
      using d c by (auto simp: list_all2_conv_all_nth nth_Cons_shift subset_iff)
    have row: "row_of_entry title index video ?row"
      by (simp add: row_of_entry_def map_of_dict_set Inr u)
    show ?thesis
    proof (intro exI [of _ "index # is"] exI [of _ "?row # new"] conjI)
      show "video_data st' = video_data st @ ?row # new" by (simp add: a st1)
      show "sorted_wrt (<) (index # is)" using b c by auto
      show "set (index # is) \<subseteq> {index ..< index + length (video # rest)}" using c by auto
      show "list_all2 (\<lambda>i r. row_of_entry title i ((video # rest) ! (i - index)) r)
              (index # is) (?row # new)"
        using d' row by simp
    qed
  qed
qed

lemma process_entries_all_urls:
  assumes "py_getitem playlist_info ''title'' = Inr title"
      and "list_all (\<lambda>v. \<exists>u. py_getitem v ''url'' = Inr u) videos"
  shows "\<exists>st' t'. process_entries env playlist_info folder index videos st t = (Inr st', t')
           \<and> length (video_data st') = length (video_data st) + length videos"
  using assms(2)
proof (induction videos arbitrary: index st t)
  case Nil
  then show ?case by simp
next
  case (Cons video rest)
  then obtain u where vu: "py_getitem video ''url'' = Inr u" by auto
  from process_entry_try_url [OF vu assms(1), where env = env and t = t and index = index
          and folder = folder and st = st]
  obtain st1 t1 where len: "length (video_data st1) = Suc (length (video_data st))"
      and step: "process_entry_try env playlist_info folder index video st t = (Inr st1, t1)"
    by fastforce
  from Cons.prems have "list_all (\<lambda>v. \<exists>u. py_getitem v ''url'' = Inr u) rest" by simp
  from Cons.IH [OF this, of "Suc index" st1 t1] len step
  show ?case by auto
qed

lemma process_entries_length_le:
  "process_entries env playlist_info folder index videos st t = (Inr st', t') \<Longrightarrow>
   length (video_data st') \<le> length (video_data st) + length videos"
proof (induction videos arbitrary: index st t)
  case Nil
  then show ?case by simp
next
  case (Cons video rest)
  show ?case
  proof (cases "process_entry_try env playlist_info folder index video st t")
    case (Pair x t1)
    show ?thesis
    proof (cases x)
      case (Inr st1)
      have "length (video_data st1) \<le> Suc (length (video_data st))"
        using Pair Inr
        by (auto simp: process_entry_try_def Let_def split: sum.splits prod.splits if_splits)
      moreover from Cons.prems Pair Inr
      have "process_entries env playlist_info folder (Suc index) rest st1 t1 = (Inr st', t')"
        by simp
      from Cons.IH [OF this] have "length (video_data st') \<le> length (video_data st1) + length rest" .
      ultimately show ?thesis by simp
    next
      case (Inl a)
      obtain e st1 where a: "a = (e, st1)" by (cases a)
      have "length (video_data st1) \<le> Suc (length (video_data st))"
        using Pair Inl a
        by (auto simp: process_entry_try_def Let_def split: sum.splits prod.splits if_splits)
      moreover from Cons.prems Pair Inl a obtain u where
        "process_entries env playlist_info folder (Suc index) rest
           (st1\<lparr>failed_downloads := failed_downloads st1 @ [u]\<rparr>)
           (t1 @ [EvLog ERROR ''Error pada video {index}: {str(e)}'']) = (Inr st', t')"
        by (auto simp: Let_def split: option.splits)
      from Cons.IH [OF this]
      have "length (video_data st') \<le> length (video_data st1) + length rest" by simp
      ultimately show ?thesis by simp
    qed
  qed
qed

lemma playlist_returns_rows:
  assumes "fst (extract_playlist_info env playlist_url folder t) = Inr (Some rows)"
  shows "\<exists>t1 playlist_info title videos st t4.
           setup_download_folder env folder t = (Inr (), t1)
         \<and> ydl_extract_info env t1 (PStr playlist_url) True = Inr playlist_info
         \<and> py_getitem playlist_info ''title'' = Inr title
         \<and> bind_exn (py_getitem playlist_info ''entries'') py_iter = Inr videos
         \<and> process_entries env playlist_info folder 1 videos
              \<lparr>video_data = [], failed_downloads = [], video_url = None\<rparr>
              (t1 @ [EvExtractInfo (PStr playlist_url) True,
                     EvLog INFO ''Mengekstrak playlist: {title}'']) = (Inr st, t4)
         \<and> rows = video_data st"
  using assms
  unfolding extract_playlist_info_def extract_playlist_info_try_def Let_def
  by (auto split: prod.splits sum.splits if_splits)

lemma playlist_enumerated:
  assumes "setup_download_folder env folder t = (Inr (), t1)"
      and "ydl_extract_info env t1 (PStr playlist_url) True = Inr playlist_info"
      and "py_truthy playlist_info"
      and "py_getitem playlist_info ''title'' = Inr title"
      and "py_getitem playlist_info ''entries'' = Inr (PList videos)"
      and "process_entries env playlist_info folder 1 videos
              \<lparr>video_data = [], failed_downloads = [], video_url = None\<rparr>
              (t1 @ [EvExtractInfo (PStr playlist_url) True,
                     EvLog INFO ''Mengekstrak playlist: {title}'']) = (x, t4)"
  shows "fst (extract_playlist_info env playlist_url folder t) =
           (case x of
              Inl e \<Rightarrow> Inr None
            | Inr st \<Rightarrow>
                if video_data st \<noteq> []
                   \<and> isl (fst (write_tables env ''youtube_playlist_'' (video_data st) t4))
                then Inr None else Inr (Some (video_data st)))"
  using assms
  unfolding extract_playlist_info_def extract_playlist_info_try_def Let_def
  by (auto simp: bind_exn_def split: prod.splits sum.splits if_splits)

lemma py_getitem_truthy: "py_getitem d k = Inr v \<Longrightarrow> py_truthy d"
  by (cases d) (auto split: option.splits)

section \<open>Digits and dates\<close>

text \<open>Facts about the model of \<^verbatim>\<open>strptime\<close> and \<^verbatim>\<open>strftime\<close>: a string of eight digits that
  is a date is parsed position by position, and formatting gives the digits back.\<close>

lemma is_digit_cases:
  "is_digit c \<longleftrightarrow> c = CHR ''0'' \<or> c = CHR ''1'' \<or> c = CHR ''2'' \<or> c = CHR ''3'' \<or> c = CHR ''4''
     \<or> c = CHR ''5'' \<or> c = CHR ''6'' \<or> c = CHR ''7'' \<or> c = CHR ''8'' \<or> c = CHR ''9''"
  by (auto simp: is_digit_def)

lemma digit_val_simps:
  "digit_val CHR ''0'' = 0" "digit_val CHR ''1'' = 1" "digit_val CHR ''2'' = 2"
  "digit_val CHR ''3'' = 3" "digit_val CHR ''4'' = 4" "digit_val CHR ''5'' = 5"
  "digit_val CHR ''6'' = 6" "digit_val CHR ''7'' = 7" "digit_val CHR ''8'' = 8"
  "digit_val CHR ''9'' = 9"
  by (simp_all add: digit_val_def)

lemma digit_char_simps:
  "digit_char 0 = CHR ''0''" "digit_char 1 = CHR ''1''" "digit_char 2 = CHR ''2''"
  "digit_char 3 = CHR ''3''" "digit_char 4 = CHR ''4''" "digit_char 5 = CHR ''5''"
  "digit_char 6 = CHR ''6''" "digit_char 7 = CHR ''7''" "digit_char 8 = CHR ''8''"
  "digit_char 9 = CHR ''9''" "digit_char (Suc 0) = CHR ''1''"
  by (simp_all add: digit_char_def)


lemma digit_char_val: "is_digit c \<Longrightarrow> digit_char (digit_val c) = c"
  by (auto simp: is_digit_cases digit_val_simps digit_char_simps)

lemma less_10_cases: "n < 10 \<longleftrightarrow> n \<in> {0, 1, 2, 3, 4, 5, 6, 7, 8, 9 :: nat}"
  by auto


lemma is_digit_char: "n < 10 \<Longrightarrow> is_digit (digit_char n)"
  by (auto simp: less_10_cases is_digit_cases digit_char_simps)

lemma digit_val_inj: "is_digit a \<Longrightarrow> is_digit b \<Longrightarrow> digit_val a = digit_val b \<Longrightarrow> a = b"
  by (metis digit_char_val)

lemma is_digit19_iff: "is_digit19 c \<longleftrightarrow> is_digit c \<and> 1 \<le> digit_val c"
  by (auto simp: is_digit19_def is_digit_cases digit_val_simps)




















section \<open>Folder creation failure (claim C1)\<close>

text \<open>
  Claim C1 says that both workflows raise the folder-creation error to their caller. They
  do not: with a folder that does not exist and an \<^verbatim>\<open>os.makedirs\<close> that raises
  \<^verbatim>\<open>OSError\<close>, \<open>download_single_video\<close> and \<open>extract_playlist_info\<close> both return \<^verbatim>\<open>None\<close>,
  because \<open>setup_download_folder\<close> is called inside their \<^verbatim>\<open>try ... except Exception\<close>.
\<close>

theorem folder_failure_does_not_raise:
  "os_makedirs env_denied [] ''/denied'' = Some OSError
   \<and> \<not> os_path_exists env_denied [] ''/denied''
   \<and> fst (download_single_video env_denied ''v'' ''/denied'' []) \<noteq> Inl OSError
   \<and> fst (download_single_video env_denied ''v'' ''/denied'' []) = Inr None
   \<and> fst (extract_playlist_info env_denied ''list'' ''/denied'' []) \<noteq> Inl OSError
   \<and> fst (extract_playlist_info env_denied ''list'' ''/denied'' []) = Inr None"
  by (simp add: env_denied_def demo_env_def download_single_video_def
        download_single_video_try_def extract_playlist_info_def extract_playlist_info_try_def
        setup_download_folder_def)

text \<open>
  Claim C1, amended: for every folder whose creation fails, both workflows return \<^verbatim>\<open>None\<close>
  to their caller (the error is logged, not raised), and they do so before any network
  call: the trace holds no call of \<^verbatim>\<open>extract_info\<close> or \<^verbatim>\<open>download\<close> beyond those it held
  at the start.
\<close>

theorem folder_failure_returns_None_before_any_network_call:
  assumes "\<not> os_path_exists env t folder" and "os_makedirs env t folder = Some e"
  shows "fst (download_single_video env url folder t) = Inr None
       \<and> fst (extract_playlist_info env playlist_url folder t) = Inr None
       \<and> filter is_network_call (snd (download_single_video env url folder t))
           = filter is_network_call t
       \<and> filter is_network_call (snd (extract_playlist_info env playlist_url folder t))
           = filter is_network_call t"
  by (simp add: single_folder_failure [OF assms] playlist_folder_failure [OF assms])

theorem folder_failure_returns_None_witness:
  "\<not> os_path_exists env_denied [] ''/denied''
   \<and> os_makedirs env_denied [] ''/denied'' = Some OSError
   \<and> fst (download_single_video env_denied ''v'' ''/denied'' []) = Inr None
   \<and> fst (extract_playlist_info env_denied ''list'' ''/denied'' []) = Inr None
   \<and> filter is_network_call (snd (download_single_video env_denied ''v'' ''/denied'' [])) = []
   \<and> filter is_network_call (snd (extract_playlist_info env_denied ''list'' ''/denied'' [])) = []"
  using folder_failure_returns_None_before_any_network_call
          [of env_denied "[]" "''/denied''" OSError "''v''" "''list''"]
  by (simp add: env_denied_def demo_env_def)

section \<open>The metadata resolver never raises (claim C4)\<close>

text \<open>
  Claim C4: for every URL, \<open>get_video_info\<close> returns a record and never raises; whenever
  contacting the collaborator fails (\<^verbatim>\<open>extract_info\<close> raises) or parsing its answer fails
  (building the record from the answer raises), the record returned is the all-sentinel
  one, with \<^verbatim>\<open>'Tidak tersedia'\<close> for title, channel, publish date and description, \<open>0\<close> for
  the numeric fields, and the given URL.
\<close>

theorem get_video_info_never_raises:
  "(\<exists>r. fst (get_video_info env url is_playlist_item t) = Inr r)
   \<and> ((\<exists>e. ydl_extract_info env t url is_playlist_item = Inl e)
        \<or> (\<exists>info_dict e. ydl_extract_info env t url is_playlist_item = Inr info_dict
              \<and> video_info_of (strftime_pads_year env) url info_dict = Inl e)
      \<longrightarrow> fst (get_video_info env url is_playlist_item t) =
            Inr [(''judul'', PStr ''Tidak tersedia''),
                 (''url'', url),
                 (''durasi_detik'', PInt 0),
                 (''durasi_menit'', PInt 0),
                 (''channel'', PStr ''Tidak tersedia''),
                 (''jumlah_views'', PInt 0),
                 (''tanggal_publikasi'', PStr ''Tidak tersedia''),
                 (''deskripsi'', PStr ''Tidak tersedia'')])"
proof (intro conjI impI)
  show "\<exists>r. fst (get_video_info env url is_playlist_item t) = Inr r"
    using get_video_info_result [of env url is_playlist_item t] by auto
next
  assume "(\<exists>e. ydl_extract_info env t url is_playlist_item = Inl e)
        \<or> (\<exists>info_dict e. ydl_extract_info env t url is_playlist_item = Inr info_dict
              \<and> video_info_of (strftime_pads_year env) url info_dict = Inl e)"
  then show "fst (get_video_info env url is_playlist_item t) =
            Inr [(''judul'', PStr ''Tidak tersedia''),
                 (''url'', url),
                 (''durasi_detik'', PInt 0),
                 (''durasi_menit'', PInt 0),
                 (''channel'', PStr ''Tidak tersedia''),
                 (''jumlah_views'', PInt 0),
                 (''tanggal_publikasi'', PStr ''Tidak tersedia''),
                 (''deskripsi'', PStr ''Tidak tersedia'')]"
    by (auto simp: get_video_info_def get_video_info_try_def default_video_info_def)
qed

text \<open>The witness: an engine that raises, and an engine that answers \<^verbatim>\<open>None\<close>.\<close>

theorem get_video_info_never_raises_witness:
  "ydl_extract_info (demo_env None (demo_extract []) (\<lambda>u. Inr 0)) [] (PStr ''v'') False
     = Inl DownloadError
   \<and> ydl_extract_info (demo_env None (\<lambda>u. Inr PNone) (\<lambda>u. Inr 0)) [] (PStr ''v'') False
     = Inr PNone
   \<and> video_info_of False (PStr ''v'') PNone = Inl AttributeError
   \<and> fst (get_video_info (demo_env None (demo_extract []) (\<lambda>u. Inr 0)) (PStr ''v'') False [])
     = Inr [(''judul'', PStr ''Tidak tersedia''),
            (''url'', PStr ''v''),
            (''durasi_detik'', PInt 0),
            (''durasi_menit'', PInt 0),
            (''channel'', PStr ''Tidak tersedia''),
            (''jumlah_views'', PInt 0),
            (''tanggal_publikasi'', PStr ''Tidak tersedia''),
            (''deskripsi'', PStr ''Tidak tersedia'')]
   \<and> fst (get_video_info (demo_env None (\<lambda>u. Inr PNone) (\<lambda>u. Inr 0)) (PStr ''v'') False [])
     = Inr [(''judul'', PStr ''Tidak tersedia''),
            (''url'', PStr ''v''),
            (''durasi_detik'', PInt 0),
            (''durasi_menit'', PInt 0),
            (''channel'', PStr ''Tidak tersedia''),
            (''jumlah_views'', PInt 0),
            (''tanggal_publikasi'', PStr ''Tidak tersedia''),
            (''deskripsi'', PStr ''Tidak tersedia'')]"
  using get_video_info_never_raises
          [of "demo_env None (demo_extract []) (\<lambda>u. Inr 0)" "PStr ''v''" False "[]"]
        get_video_info_never_raises
          [of "demo_env None (\<lambda>u. Inr PNone) (\<lambda>u. Inr 0)" "PStr ''v''" False "[]"]
  by (simp add: demo_env_def demo_extract_def video_info_of_def bind_exn_def)

section \<open>The record keeps the URL it was asked for (claim C10)\<close>

text \<open>
  Claim C10: for every input URL, the record that \<open>get_video_info\<close> returns has the field
  \<^verbatim>\<open>url\<close> equal to that URL, on the success path and on the failure path alike.
\<close>

theorem get_video_info_keeps_url:
  "\<exists>r. fst (get_video_info env url is_playlist_item t) = Inr r \<and> map_of r ''url'' = Some url"
  using get_video_info_result [of env url is_playlist_item t] by auto

section \<open>A failed fetch of a single video (claim C7)\<close>

text \<open>
  Claim C7: for every URL whose fetch fails, \<open>download_single_video\<close> returns \<^verbatim>\<open>None\<close> and
  writes no report. \<open>download_video\<close> tells a failure only by an exception, and it asks the
  engine to ignore errors. A fetch that fails inside the engine is reported there and the
  call returns the code 1; \<open>download_video\<close> returns \<^verbatim>\<open>True\<close>, the workflow logs that the
  video was downloaded, writes the CSV file and the spreadsheet and returns the record.
\<close>

theorem failed_fetch_is_reported_as_success:
  "ydl_download env_swallowed
     [EvMakedirs ''dl'', EvLog INFO ''Folder {folder} berhasil dibuat'',
      EvLog INFO ''Memproses video: {url}'', EvExtractInfo (PStr ''v'') False,
      EvLog ERROR ''Gagal mengambil info untuk {url}: {str(e)}''] (PStr ''v'') ''dl'' = Inr 1
   \<and> fst (download_single_video env_swallowed ''v'' ''dl'' [])
       = Inr (Some (default_video_info (PStr ''v'')))
   \<and> filter is_report_write (snd (download_single_video env_swallowed ''v'' ''dl'' []))
       = [EvToCsv ''youtube_video_20240115_120000.csv'' [default_video_info (PStr ''v'')],
          EvToExcel ''youtube_video_20240115_120000.xlsx'' [default_video_info (PStr ''v'')]]
   \<and> EvLog INFO ''Video berhasil didownload''
        \<in> set (snd (download_single_video env_swallowed ''v'' ''dl'' []))"
  by code_simp

text \<open>Whatever code the call returns, \<open>download_video\<close> returns \<^verbatim>\<open>True\<close>.\<close>

lemma download_video_ignores_return_code:
  "ydl_download env t url folder = Inr retcode \<Longrightarrow>
   download_video env url folder t = (Inr True, t @ [EvDownload url folder])"
  by (simp add: download_video_def)

text \<open>What the claim says does hold when the fetch fails by an exception that leaves
  \<^verbatim>\<open>YoutubeDL.download\<close>, which is when \<open>download_video\<close> returns \<^verbatim>\<open>False\<close>: the workflow
  returns \<^verbatim>\<open>None\<close> and calls neither table writer, although \<^verbatim>\<open>extract_info\<close> was called.\<close>

lemma single_download_raises_writes_no_report:
  assumes "setup_download_folder env download_folder t = (Inr (), t1)"
      and "get_video_info env (PStr url) False (t1 @ [EvLog INFO ''Memproses video: {url}''])
             = (Inr video_info, t2)"
      and "fst (download_video env (PStr url) download_folder t2) = Inr False"
  shows "fst (download_single_video env url download_folder t) = Inr None
       \<and> filter is_report_write (snd (download_single_video env url download_folder t))
           = filter is_report_write t
       \<and> EvExtractInfo (PStr url) False
           \<in> set (snd (download_single_video env url download_folder t))"
proof -
  from download_video_cases [of env t2 "PStr url" download_folder] assms(3)
  obtain e where dl: "download_video env (PStr url) download_folder t2 =
      (Inr False, t2 @ [EvDownload (PStr url) download_folder,
                        EvLog ERROR ''Error saat mendownload {url}: {str(e)}''])"
    by auto
  have res: "download_single_video env url download_folder t =
      (Inr None, t2 @ [EvDownload (PStr url) download_folder,
                       EvLog ERROR ''Error saat mendownload {url}: {str(e)}'',
                       EvLog ERROR ''Gagal mendownload video''])"
    by (simp add: download_single_video_def download_single_video_try_def assms(1,2) dl)
  from setup_download_folder_cases [OF assms(1)]
  have w1: "filter is_report_write t1 = filter is_report_write t" by auto
  from get_video_info_trace [OF assms(2)]
  have w2: "filter is_report_write t2 = filter is_report_write t1"
    and ex: "EvExtractInfo (PStr url) False \<in> set t2" by auto
  show ?thesis by (simp add: res w1 w2 ex)
qed

section \<open>The workflows never raise (claim C8)\<close>

text \<open>
  Claim C8: for every input, \<open>download_single_video\<close> and \<open>extract_playlist_info\<close> return a
  value and raise nothing to their caller; whenever anything raises inside their \<^verbatim>\<open>try\<close>
  (the folder cannot be created, a table cannot be written, or anything else), they
  return \<^verbatim>\<open>None\<close>, and the last thing they did was to log an error.
\<close>

theorem workflows_never_raise:
  "(\<exists>r. fst (download_single_video env url download_folder t) = Inr r)
   \<and> (\<exists>r. fst (extract_playlist_info env url download_folder t) = Inr r)
   \<and> ((\<exists>e. fst (download_single_video_try env url download_folder t) = Inl e) \<longrightarrow>
        fst (download_single_video env url download_folder t) = Inr None
        \<and> is_error_log (last (snd (download_single_video env url download_folder t))))
   \<and> ((\<exists>e. fst (extract_playlist_info_try env url download_folder t) = Inl e) \<longrightarrow>
        fst (extract_playlist_info env url download_folder t) = Inr None
        \<and> is_error_log (last (snd (extract_playlist_info env url download_folder t))))"
proof (intro conjI impI)
  show "\<exists>r. fst (download_single_video env url download_folder t) = Inr r"
    by (rule single_never_raises)
  show "\<exists>r. fst (extract_playlist_info env url download_folder t) = Inr r"
    by (rule playlist_never_raises)
next
  assume "\<exists>e. fst (download_single_video_try env url download_folder t) = Inl e"
  then obtain e t1 where "download_single_video_try env url download_folder t = (Inl e, t1)"
    by (metis prod.collapse)
  from single_try_raises [OF this]
  show "fst (download_single_video env url download_folder t) = Inr None"
    and "is_error_log (last (snd (download_single_video env url download_folder t)))"
    by simp_all
next
  assume "\<exists>e. fst (extract_playlist_info_try env url download_folder t) = Inl e"
  then obtain e t1 where "extract_playlist_info_try env url download_folder t = (Inl e, t1)"
    by (metis prod.collapse)
  from playlist_try_raises [OF this]
  show "fst (extract_playlist_info env url download_folder t) = Inr None"
    and "is_error_log (last (snd (extract_playlist_info env url download_folder t)))"
    by simp_all
qed

text \<open>The witness: a folder that cannot be created, and a CSV writer that raises after
  the downloads are done.\<close>

theorem workflows_never_raise_witness:
  "fst (download_single_video_try env_denied ''list'' ''/denied'' []) = Inl OSError
   \<and> fst (extract_playlist_info_try env_denied ''list'' ''/denied'' []) = Inl OSError
   \<and> fst (download_single_video env_denied ''list'' ''/denied'' []) = Inr None
   \<and> fst (extract_playlist_info env_denied ''list'' ''/denied'' []) = Inr None
   \<and> fst (download_single_video_try env_csv_fails ''list'' ''dl'' []) = Inl OSError
   \<and> fst (extract_playlist_info_try env_csv_fails ''list'' ''dl'' []) = Inl OSError
   \<and> fst (download_single_video env_csv_fails ''list'' ''dl'' []) = Inr None
   \<and> fst (extract_playlist_info env_csv_fails ''list'' ''dl'' []) = Inr None
   \<and> is_error_log (last (snd (download_single_video env_csv_fails ''list'' ''dl'' [])))
   \<and> is_error_log (last (snd (extract_playlist_info env_csv_fails ''list'' ''dl'' [])))"
proof -
  have a: "fst (download_single_video_try env_denied ''list'' ''/denied'' []) = Inl OSError"
    by (simp add: env_denied_def demo_env_def download_single_video_try_def
          setup_download_folder_def)
  have b: "fst (extract_playlist_info_try env_denied ''list'' ''/denied'' []) = Inl OSError"
    by (simp add: env_denied_def demo_env_def extract_playlist_info_try_def
          setup_download_folder_def)
  have c: "fst (download_single_video_try env_csv_fails ''list'' ''dl'' []) = Inl OSError"
    by code_simp
  have d: "fst (extract_playlist_info_try env_csv_fails ''list'' ''dl'' []) = Inl OSError"
    by code_simp
  show ?thesis
    using workflows_never_raise [of env_denied "''list''" "''/denied''" "[]"]
          workflows_never_raise [of env_csv_fails "''list''" "''dl''" "[]"]
    by (simp add: a b c d)
qed

section \<open>One row per playlist entry (claim C3)\<close>

text \<open>
  Claim C3 says that the rows always number as many as the playlist's entries. They do
  not when an entry exposes no URL: \<^verbatim>\<open>video['url']\<close> raises before a row is built, the
  handler of the loop logs and continues, and the entry gets no row. Here the playlist has
  three entries and the workflow returns two rows.
\<close>

theorem rows_fewer_than_entries:
  "ydl_extract_info env_gap (snd (setup_download_folder env_gap ''dl'' [])) (PStr ''list'') True
     = Inr (demo_playlist [demo_entry ''a'', PDict [(''id'', PStr ''x'')], demo_entry ''c''])
   \<and> bind_exn (py_getitem
        (demo_playlist [demo_entry ''a'', PDict [(''id'', PStr ''x'')], demo_entry ''c''])
        ''entries'') py_len = Inr 3
   \<and> fst (extract_playlist_info env_gap ''list'' ''dl'' [])
       = Inr (Some [demo_row ''a'' 1, demo_row ''c'' 3])
   \<and> returned_row_count (fst (extract_playlist_info env_gap ''list'' ''dl'' [])) = Some 2"
  by code_simp

text \<open>
  Claim C3, amended: for every playlist that was enumerated (the folder is there,
  \<^verbatim>\<open>extract_info\<close> answered a dict with a title and a list of entries) and whose entries each
  expose a URL, the loop completes and the rows it accumulated number as many as the
  entries, whatever the fetches did; the workflow returns these rows, unless there are
  rows and writing the tables raises, in which case it returns \<^verbatim>\<open>None\<close>.
\<close>

theorem rows_equal_entries_when_entries_expose_urls:
  assumes "setup_download_folder env download_folder t = (Inr (), t1)"
      and "ydl_extract_info env t1 (PStr playlist_url) True = Inr playlist_info"
      and "py_getitem playlist_info ''title'' = Inr title"
      and "py_getitem playlist_info ''entries'' = Inr (PList videos)"
      and "list_all (\<lambda>video. \<exists>u. py_getitem video ''url'' = Inr u) videos"
  shows "\<exists>st t4.
           process_entries env playlist_info download_folder 1 videos
             \<lparr>video_data = [], failed_downloads = [], video_url = None\<rparr>
             (t1 @ [EvExtractInfo (PStr playlist_url) True,
                    EvLog INFO ''Mengekstrak playlist: {title}'']) = (Inr st, t4)
         \<and> length (video_data st) = length videos
         \<and> fst (extract_playlist_info env playlist_url download_folder t) =
             (if video_data st \<noteq> []
                 \<and> isl (fst (write_tables env ''youtube_playlist_'' (video_data st) t4))
              then Inr None else Inr (Some (video_data st)))"
proof -
  from process_entries_all_urls [OF assms(3) assms(5)]
  obtain st t4 where loop:
      "process_entries env playlist_info download_folder 1 videos
         \<lparr>video_data = [], failed_downloads = [], video_url = None\<rparr>
         (t1 @ [EvExtractInfo (PStr playlist_url) True,
                EvLog INFO ''Mengekstrak playlist: {title}'']) = (Inr st, t4)"
    and len: "length (video_data st) = length videos"
    by fastforce
  from playlist_enumerated [OF assms(1,2) py_getitem_truthy [OF assms(3)] assms(3,4) loop]
  have "fst (extract_playlist_info env playlist_url download_folder t) =
             (if video_data st \<noteq> []
                 \<and> isl (fst (write_tables env ''youtube_playlist_'' (video_data st) t4))
              then Inr None else Inr (Some (video_data st)))"
    by simp
  with loop len show ?thesis by blast
qed

text \<open>The witness: two entries, both fetches fail, two rows.\<close>

theorem rows_equal_entries_witness:
  "setup_download_folder env_no_download ''dl'' []
     = (Inr (), [EvMakedirs ''dl'', EvLog INFO ''Folder {folder} berhasil dibuat''])
   \<and> ydl_extract_info env_no_download
        [EvMakedirs ''dl'', EvLog INFO ''Folder {folder} berhasil dibuat''] (PStr ''list'') True
       = Inr (demo_playlist [demo_entry ''a'', demo_entry ''b''])
   \<and> py_getitem (demo_playlist [demo_entry ''a'', demo_entry ''b'']) ''title'' = Inr (PStr ''P'')
   \<and> py_getitem (demo_playlist [demo_entry ''a'', demo_entry ''b'']) ''entries''
       = Inr (PList [demo_entry ''a'', demo_entry ''b''])
   \<and> list_all (\<lambda>video. \<exists>u. py_getitem video ''url'' = Inr u) [demo_entry ''a'', demo_entry ''b'']
   \<and> fst (extract_playlist_info env_no_download ''list'' ''dl'' [])
       = Inr (Some [demo_row ''a'' 1, demo_row ''b'' 2])
   \<and> (\<exists>st t4.
         process_entries env_no_download (demo_playlist [demo_entry ''a'', demo_entry ''b''])
           ''dl'' 1 [demo_entry ''a'', demo_entry ''b'']
           \<lparr>video_data = [], failed_downloads = [], video_url = None\<rparr>
           [EvMakedirs ''dl'', EvLog INFO ''Folder {folder} berhasil dibuat'',
            EvExtractInfo (PStr ''list'') True, EvLog INFO ''Mengekstrak playlist: {title}'']
           = (Inr st, t4)
         \<and> length (video_data st) = 2)"
proof -
  have h1: "setup_download_folder env_no_download ''dl'' []
     = (Inr (), [EvMakedirs ''dl'', EvLog INFO ''Folder {folder} berhasil dibuat''])"
    by (simp add: env_no_download_def demo_env_def setup_download_folder_def)
  have h2: "ydl_extract_info env_no_download
        [EvMakedirs ''dl'', EvLog INFO ''Folder {folder} berhasil dibuat''] (PStr ''list'') True
       = Inr (demo_playlist [demo_entry ''a'', demo_entry ''b''])"
    by (simp add: env_no_download_def demo_env_def demo_extract_def)
  have h3: "py_getitem (demo_playlist [demo_entry ''a'', demo_entry ''b'']) ''title''
       = Inr (PStr ''P'')"
    by (simp add: demo_playlist_def)
  have h4: "py_getitem (demo_playlist [demo_entry ''a'', demo_entry ''b'']) ''entries''
       = Inr (PList [demo_entry ''a'', demo_entry ''b''])"
    by (simp add: demo_playlist_def)
  have h5: "list_all (\<lambda>video. \<exists>u. py_getitem video ''url'' = Inr u)
       [demo_entry ''a'', demo_entry ''b'']"
    by (simp add: demo_entry_def)
  have r: "fst (extract_playlist_info env_no_download ''list'' ''dl'' [])
       = Inr (Some [demo_row ''a'' 1, demo_row ''b'' 2])"
    by code_simp
  from rows_equal_entries_when_entries_expose_urls [OF h1 h2 h3 h4 h5]
  show ?thesis using h1 h2 h3 h4 h5 r by auto
qed

section \<open>Positions and title in the rows of a playlist (claim C9)\<close>

text \<open>
  Claim C9: whenever the playlist workflow returns rows, there are positions, one for each
  row and strictly increasing in the order of the rows, such that each row carries its
  position in \<^verbatim>\<open>urutan_playlist\<close>, the position is the 1-based position of an entry of the
  enumerated playlist, the row's URL is the one that entry exposes, and the row carries
  the playlist's title in \<^verbatim>\<open>playlist\<close>.
\<close>

theorem playlist_rows_carry_position_and_title:
  assumes "fst (extract_playlist_info env playlist_url download_folder t) = Inr (Some rows)"
  shows "\<exists>playlist_info title videos is.
           ydl_extract_info env (snd (setup_download_folder env download_folder t))
             (PStr playlist_url) True = Inr playlist_info
         \<and> py_getitem playlist_info ''title'' = Inr title
         \<and> bind_exn (py_getitem playlist_info ''entries'') py_iter = Inr videos
         \<and> length is = length rows
         \<and> sorted_wrt (<) is
         \<and> (\<forall>j < length rows.
               1 \<le> is ! j \<and> is ! j \<le> length videos
               \<and> map_of (rows ! j) ''urutan_playlist'' = Some (PInt (int (is ! j)))
               \<and> map_of (rows ! j) ''playlist'' = Some title
               \<and> (\<exists>u. py_getitem (videos ! (is ! j - 1)) ''url'' = Inr u
                      \<and> map_of (rows ! j) ''url'' = Some u))"
proof -
  from playlist_returns_rows [OF assms]
  obtain t1 playlist_info title videos st t4 where
        s: "setup_download_folder env download_folder t = (Inr (), t1)"
    and e: "ydl_extract_info env t1 (PStr playlist_url) True = Inr playlist_info"
    and ti: "py_getitem playlist_info ''title'' = Inr title"
    and it: "bind_exn (py_getitem playlist_info ''entries'') py_iter = Inr videos"
    and loop: "process_entries env playlist_info download_folder 1 videos
              \<lparr>video_data = [], failed_downloads = [], video_url = None\<rparr>
              (t1 @ [EvExtractInfo (PStr playlist_url) True,
                     EvLog INFO ''Mengekstrak playlist: {title}'']) = (Inr st, t4)"
    and rows: "rows = video_data st"
    by blast
  from process_entries_rows [OF ti loop]
  obtain "is" where srt: "sorted_wrt (<) is"
    and rng: "set is \<subseteq> {1 ..< 1 + length videos}"
    and all2: "list_all2 (\<lambda>i r. row_of_entry title i (videos ! (i - 1)) r) is rows"
    by (auto simp: rows)
  have len: "length is = length rows" using all2 by (rule list_all2_lengthD)
  have each: "\<forall>j < length rows.
               1 \<le> is ! j \<and> is ! j \<le> length videos
               \<and> map_of (rows ! j) ''urutan_playlist'' = Some (PInt (int (is ! j)))
               \<and> map_of (rows ! j) ''playlist'' = Some title
               \<and> (\<exists>u. py_getitem (videos ! (is ! j - 1)) ''url'' = Inr u
                      \<and> map_of (rows ! j) ''url'' = Some u)"
  proof (intro allI impI)
    fix j assume j: "j < length rows"
    then have "is ! j \<in> set is" using len by simp
    with rng have b: "1 \<le> is ! j" "is ! j \<le> length videos" by auto
    from all2 j have "row_of_entry title (is ! j) (videos ! (is ! j - 1)) (rows ! j)"
      by (simp add: list_all2_conv_all_nth)
    with b show "1 \<le> is ! j \<and> is ! j \<le> length videos
               \<and> map_of (rows ! j) ''urutan_playlist'' = Some (PInt (int (is ! j)))
               \<and> map_of (rows ! j) ''playlist'' = Some title
               \<and> (\<exists>u. py_getitem (videos ! (is ! j - 1)) ''url'' = Inr u
                      \<and> map_of (rows ! j) ''url'' = Some u)"
      by (auto simp: row_of_entry_def split: sum.splits)
  qed
  from s e have "ydl_extract_info env (snd (setup_download_folder env download_folder t))
             (PStr playlist_url) True = Inr playlist_info" by simp
  with ti it len srt each show ?thesis by blast
qed

text \<open>The witness: the second of three entries has no URL; the rows carry 1 and 3.\<close>

theorem playlist_rows_witness:
  "fst (extract_playlist_info env_gap ''list'' ''dl'' [])
     = Inr (Some [demo_row ''a'' 1, demo_row ''c'' 3])
   \<and> (\<exists>playlist_info title videos is.
           ydl_extract_info env_gap (snd (setup_download_folder env_gap ''dl'' []))
             (PStr ''list'') True = Inr playlist_info
         \<and> py_getitem playlist_info ''title'' = Inr title
         \<and> bind_exn (py_getitem playlist_info ''entries'') py_iter = Inr videos
         \<and> length is = length [demo_row ''a'' 1, demo_row ''c'' 3]
         \<and> sorted_wrt (<) is
         \<and> (\<forall>j < length [demo_row ''a'' 1, demo_row ''c'' 3].
               1 \<le> is ! j \<and> is ! j \<le> length videos
               \<and> map_of ([demo_row ''a'' 1, demo_row ''c'' 3] ! j) ''urutan_playlist''
                   = Some (PInt (int (is ! j)))
               \<and> map_of ([demo_row ''a'' 1, demo_row ''c'' 3] ! j) ''playlist'' = Some title
               \<and> (\<exists>u. py_getitem (videos ! (is ! j - 1)) ''url'' = Inr u
                      \<and> map_of ([demo_row ''a'' 1, demo_row ''c'' 3] ! j) ''url'' = Some u)))
   \<and> map (\<lambda>r. map_of r ''urutan_playlist'') [demo_row ''a'' 1, demo_row ''c'' 3]
       = [Some (PInt 1), Some (PInt 3)]"
proof -
  have h: "fst (extract_playlist_info env_gap ''list'' ''dl'' [])
     = Inr (Some [demo_row ''a'' 1, demo_row ''c'' 3])"
    by code_simp
  have m: "map (\<lambda>r. map_of r ''urutan_playlist'') [demo_row ''a'' 1, demo_row ''c'' 3]
       = [Some (PInt 1), Some (PInt 3)]"
    by (simp add: demo_row_def)
  from playlist_rows_carry_position_and_title [OF h] h m show ?thesis by blast
qed

section \<open>A failing item and the rest of the batch (claim C2)\<close>

text \<open>
  Claim C2 says that an exception while processing an item records the item's URL in the
  failed list and never aborts the batch. The handler of the loop appends the variable
  \<^verbatim>\<open>video_url\<close>, which the failing statement \<^verbatim>\<open>video_url = video['url']\<close> did not assign.
  When the first entry exposes no URL the variable is unbound: the handler itself raises,
  the workflow returns \<^verbatim>\<open>None\<close>, the second entry is never resolved or fetched and no
  report is written. When a later entry exposes no URL the variable still holds the URL of
  the entry before: the summary lists \<open>a\<close> as failed although its download succeeded.
\<close>

theorem entry_without_url_aborts_or_misreports:
  "ydl_extract_info env_first_gap (snd (setup_download_folder env_first_gap ''dl'' []))
     (PStr ''list'') True
     = Inr (demo_playlist [PDict [(''id'', PStr ''x'')], demo_entry ''b''])
   \<and> fst (extract_playlist_info env_first_gap ''list'' ''dl'' []) = Inr None
   \<and> EvExtractInfo (PStr ''b'') True \<notin> set (snd (extract_playlist_info env_first_gap ''list'' ''dl'' []))
   \<and> EvDownload (PStr ''b'') ''dl'' \<notin> set (snd (extract_playlist_info env_first_gap ''list'' ''dl'' []))
   \<and> filter is_report_write (snd (extract_playlist_info env_first_gap ''list'' ''dl'' [])) = []
   \<and> ydl_download env_gap [] (PStr ''a'') ''dl'' = Inr 0
   \<and> EvLogValue WARNING (PStr ''a'') \<in> set (snd (extract_playlist_info env_gap ''list'' ''dl'' []))"
  by code_simp

text \<open>What the claim says does hold for an entry that exposes a URL and whose fetch fails
  by an exception (\<open>download_video\<close> returns \<^verbatim>\<open>False\<close>): the URL goes to the failed list and
  the loop goes on with the next entry.\<close>

lemma failed_fetch_is_recorded_and_loop_continues:
  assumes "py_getitem video ''url'' = Inr u"
      and "py_getitem playlist_info ''title'' = Inr title"
      and "get_video_info env u True
             (t @ [EvLog INFO ''Memproses video {index}/{total_videos}'']) = (Inr r, t2)"
      and "fst (download_video env u folder t2) = Inr False"
  shows "process_entries env playlist_info folder index (video # rest) st t =
           process_entries env playlist_info folder (Suc index) rest
             (st\<lparr>video_url := Some u,
                 video_data := video_data st @
                   [dict_set ''urutan_playlist'' (PInt (int index))
                      (dict_set ''playlist'' title r)],
                 failed_downloads := failed_downloads st @ [u]\<rparr>)
             (snd (download_video env u folder t2))"
  using process_entry_try_url [OF assms(1,2), where env = env and t = t and index = index
          and folder = folder and st = st] assms(3,4)
  by auto

section \<open>Duration in seconds and minutes (claim C5)\<close>










text \<open>For a whole number of seconds, \<^verbatim>\<open>round(d/60, 2)\<close> never meets a tie: the rule for ties
  plays no part.\<close>

lemma no_tie_for_integer_seconds:
  "(of_int d / 60 * 100 :: rat) - of_int \<lfloor>of_int d / 60 * 100 :: rat\<rfloor> \<noteq> 1 / 2"
proof
  let ?f = "\<lfloor>of_int d / 60 * 100 :: rat\<rfloor>"
  assume "(of_int d / 60 * 100 :: rat) - of_int ?f = 1 / 2"
  then have "(of_int (10 * d) :: rat) = of_int (6 * ?f + 3)"
    by (simp add: field_simps)
  then have "10 * d = 6 * ?f + 3" by (simp only: of_int_eq_iff)
  then show False by presburger
qed




section \<open>The publish date (claim C6)\<close>








end
